theory Spec2Isabelle
  imports Complex_Main
begin

section \<open>JavaScript values\<close>

text \<open>
  The values that flow through \<open>retry.ts\<close>, \<open>try-catch.ts\<close> and \<open>fetcher.ts\<close>: results of
  operations, thrown errors, abort reasons, request bodies and decoded JSON.
  \<^item> \<open>Undefined\<close> and \<open>Null\<close> are the two nullish values;
  \<^item> numbers are idealised as integers;
  \<^item> \<open>Arr\<close> is an array, \<open>Obj\<close> a plain object (prototype \<open>Object.prototype\<close>), an
    association list from property names to values, looked up with \<open>map_of\<close>;
  \<^item> \<open>ErrorObj m\<close> is \<open>new Error(m)\<close>;
  \<^item> \<open>FormData\<close> is a multipart form with its entries;
  \<^item> \<open>URL\<close> is a \<open>URL\<close> object, given by what its \<open>toString()\<close> returns;
  \<^item> \<open>Exotic\<close> is any other object that is neither plain nor an array (a \<open>Blob\<close>,
    \<open>URLSearchParams\<close>, a stream, a class instance), named by a tag; it has no
    \<open>message\<close> property.
\<close>

datatype jsval =
    Undefined
  | Null
  | Bool bool
  | Num int
  | Str string
  | Arr "jsval list"
  | Obj "(string \<times> jsval) list"
  | ErrorObj string
  | FormData "(string \<times> string) list"
  | URL string
  | Exotic string

text \<open>The \<open>typeof\<close> operator on these values.\<close>

definition js_typeof :: "jsval \<Rightarrow> string" where
  "js_typeof v =
     (case v of Undefined \<Rightarrow> ''undefined'' | Bool _ \<Rightarrow> ''boolean'' | Num _ \<Rightarrow> ''number''
      | Str _ \<Rightarrow> ''string'' | _ \<Rightarrow> ''object'')"

text \<open>\<open>a ?? b\<close>: the right operand only when the left one is \<open>null\<close> or \<open>undefined\<close>.\<close>

definition nullish :: "jsval \<Rightarrow> bool" where
  "nullish v = (v = Undefined \<or> v = Null)"

definition coalesce :: "jsval \<Rightarrow> jsval \<Rightarrow> jsval" where
  "coalesce a b = (if nullish a then b else a)"

text \<open>
  A promise is modelled by the way it settles: \<open>Inl e\<close> is a rejection with \<open>e\<close> (or a
  synchronous throw inside an \<open>async\<close> body), \<open>Inr v\<close> a fulfilment with \<open>v\<close>.
\<close>

type_synonym 'a settled = "jsval + 'a"


section \<open>Strings\<close>

text \<open>
  A string of the program is modelled by its UTF-8 encoding, a list of bytes, so that an
  ASCII character is one byte and any other character two to four.

  \<open>white_space\<close> lists the encodings of the characters that \<open>String.prototype.trim\<close>
  strips, the white space and the line terminators of ECMAScript: U+0009 to U+000D,
  U+0020, U+00A0, U+1680, U+2000 to U+200A, U+2028, U+2029, U+202F, U+205F, U+3000 and
  U+FEFF. \<open>strip ws s\<close> removes from the front of \<open>s\<close> every leading sequence of \<open>ws\<close>;
  \<open>trim\<close> strips the white space from the front and, through the reversed string and
  the reversed encodings, from the end.
\<close>

definition white_space :: "string list" where
  "white_space =
     [[CHR 0x09], [CHR 0x0A], [CHR 0x0B], [CHR 0x0C], [CHR 0x0D], [CHR 0x20],
      [CHR 0xC2, CHR 0xA0],
      [CHR 0xE1, CHR 0x9A, CHR 0x80],
      [CHR 0xE2, CHR 0x80, CHR 0x80], [CHR 0xE2, CHR 0x80, CHR 0x81],
      [CHR 0xE2, CHR 0x80, CHR 0x82], [CHR 0xE2, CHR 0x80, CHR 0x83],
      [CHR 0xE2, CHR 0x80, CHR 0x84], [CHR 0xE2, CHR 0x80, CHR 0x85],
      [CHR 0xE2, CHR 0x80, CHR 0x86], [CHR 0xE2, CHR 0x80, CHR 0x87],
      [CHR 0xE2, CHR 0x80, CHR 0x88], [CHR 0xE2, CHR 0x80, CHR 0x89],
      [CHR 0xE2, CHR 0x80, CHR 0x8A],
      [CHR 0xE2, CHR 0x80, CHR 0xA8], [CHR 0xE2, CHR 0x80, CHR 0xA9],
      [CHR 0xE2, CHR 0x80, CHR 0xAF],
      [CHR 0xE2, CHR 0x81, CHR 0x9F],
      [CHR 0xE3, CHR 0x80, CHR 0x80],
      [CHR 0xEF, CHR 0xBB, CHR 0xBF]]"

function strip :: "string list \<Rightarrow> string \<Rightarrow> string" where
  "strip ws s =
     (case find (\<lambda>w. w \<noteq> [] \<and> take (length w) s = w) ws of
        None \<Rightarrow> s
      | Some w \<Rightarrow> strip ws (drop (length w) s))"
  by pat_completeness auto
termination
proof (relation "measure (\<lambda>(ws, s). length s)")
  show "wf (measure (\<lambda>(ws, s). length s))" by simp
next
  fix ws :: "string list" and s w :: string
  assume "find (\<lambda>w. w \<noteq> [] \<and> take (length w) s = w) ws = Some w"
  then have "w \<noteq> [] \<and> take (length w) s = w" by (auto simp: find_Some_iff)
  then have "w \<noteq> []" and "length w \<le> length s"
    by (auto simp: min_def dest: arg_cong [where f = length] split: if_splits)
  then show "((ws, drop (length w) s), (ws, s)) \<in> measure (\<lambda>(ws, s). length s)"
    by (cases w) auto
qed

declare strip.simps [simp del]

definition trim :: "string \<Rightarrow> string" where
  "trim s = rev (strip (map rev white_space) (rev (strip white_space s)))"

text \<open>
  \<open>toLowerCase\<close> folds the letters A to Z. \<open>String.prototype.toLowerCase\<close> changes other
  characters too, none of them into a letter of \<open>json\<close>, so that the test for that
  substring, the one use made of the folded content type, is not affected.
  \<open>str_includes\<close> is the substring test of \<open>String.prototype.includes\<close> and \<open>decimal\<close>
  the decimal rendering of a natural number in a template literal.
\<close>

definition lower_char :: "char \<Rightarrow> char" where
  "lower_char c =
     (case map_of (zip ''ABCDEFGHIJKLMNOPQRSTUVWXYZ'' ''abcdefghijklmnopqrstuvwxyz'') c of
        None \<Rightarrow> c
      | Some l \<Rightarrow> l)"

definition toLowerCase :: "string \<Rightarrow> string" where
  "toLowerCase s = map lower_char s"

fun str_includes :: "string \<Rightarrow> string \<Rightarrow> bool" where
  "str_includes [] sub = (sub = [])"
| "str_includes (c # cs) sub = (take (length sub) (c # cs) = sub \<or> str_includes cs sub)"

definition digit :: "nat \<Rightarrow> char" where
  "digit d = ''0123456789'' ! d"

fun decimal :: "nat \<Rightarrow> string" where
  "decimal n = (if n < 10 then [digit n] else decimal (n div 10) @ [digit (n mod 10)])"

declare decimal.simps [simp del]

section \<open>The fetch wrapper (\<open>fetcher.ts\<close>)\<close>

subsection \<open>Header lists\<close>

text \<open>
  A \<open>Headers\<close> object is a list of name and value pairs whose names compare without
  regard to case; names are kept in lower case. \<open>Headers_new\<close> is \<open>new Headers(init)\<close> for
  an \<open>init\<close> given as pairs (absent: the empty list), \<open>Headers_get\<close> joins the values of
  a repeated name with a comma and a space, \<open>Headers_set\<close> overwrites the first entry of the
  name and drops the others, \<open>Headers_delete\<close> drops them all. Names and values are
  taken to be valid, so that none of these operations throws.
\<close>

type_synonym Headers = "(string \<times> string) list"

definition Headers_new :: "(string \<times> string) list \<Rightarrow> Headers" where
  "Headers_new init = map (\<lambda>(name, v). (toLowerCase name, v)) init"

definition Headers_has :: "Headers \<Rightarrow> string \<Rightarrow> bool" where
  "Headers_has h name = (toLowerCase name \<in> set (map fst h))"

fun join_values :: "string list \<Rightarrow> string" where
  "join_values [] = []"
| "join_values [v] = v"
| "join_values (v # w # vs) = v @ '', '' @ join_values (w # vs)"

definition Headers_get :: "Headers \<Rightarrow> string \<Rightarrow> string option" where
  "Headers_get h name =
     (if Headers_has h name
      then Some (join_values (map snd (filter (\<lambda>(k, _). k = toLowerCase name) h)))
      else None)"

definition Headers_delete :: "Headers \<Rightarrow> string \<Rightarrow> Headers" where
  "Headers_delete h name = filter (\<lambda>(k, _). k \<noteq> toLowerCase name) h"

fun set_first :: "string \<Rightarrow> string \<Rightarrow> Headers \<Rightarrow> Headers" where
  "set_first k v [] = []"
| "set_first k v ((k', v') # h) =
     (if k' = k then (k, v) # filter (\<lambda>(k'', _). k'' \<noteq> k) h else (k', v') # set_first k v h)"

definition Headers_set :: "Headers \<Rightarrow> string \<Rightarrow> string \<Rightarrow> Headers" where
  "Headers_set h name v =
     (if Headers_has h name then set_first (toLowerCase name) v h
      else h @ [(toLowerCase name, v)])"

subsection \<open>Requests and responses\<close>

datatype HttpMethod = GET | POST | PUT | PATCH | DELETE | HEAD

text \<open>
  \<open>RequestOptions\<close>: an absent \<open>method\<close> (the field \<open>http_method\<close>) is \<open>None\<close>, an
  absent \<open>body\<close> is \<open>Undefined\<close>, absent \<open>headers\<close> are the empty list; \<open>restOptions\<close>
  are the options passed through.
\<close>

record RequestOptions =
  http_method :: "HttpMethod option"
  body :: jsval
  headers :: "(string \<times> string) list"
  restOptions :: "(string \<times> jsval) list"

text \<open>\<open>RequestInit\<close> as handed to \<open>fetch\<close>; \<open>init_body = None\<close> when no body was set.\<close>

record RequestInit =
  init_method :: HttpMethod
  init_headers :: Headers
  init_body :: "jsval option"
  init_rest :: "(string \<times> jsval) list"

text \<open>
  A response of the transport: \<open>text_body\<close> and \<open>json_body\<close> are what \<open>response.text()\<close>
  and \<open>response.json()\<close> settle to.
\<close>

record Response =
  ok :: bool
  status :: nat
  resp_headers :: Headers
  text_body :: "string settled"
  json_body :: "jsval settled"

text \<open>
  What \<open>fetcher\<close> takes from its environment: the transport \<open>fetch\<close> and the built-in
  \<open>JSON.parse\<close> (which may throw) and \<open>JSON.stringify\<close>.
\<close>

record runtime =
  fetch :: "string \<Rightarrow> RequestInit \<Rightarrow> Response settled"
  JSON_parse :: "string \<Rightarrow> jsval settled"
  JSON_stringify :: "jsval \<Rightarrow> string"

subsection \<open>Helpers of \<open>fetcher.ts\<close>\<close>

text \<open>Whether \<open>Object.getPrototypeOf(value)\<close> is \<open>Object.prototype\<close> or \<open>null\<close>.\<close>

definition plain_prototype :: "jsval \<Rightarrow> bool" where
  "plain_prototype v = (case v of Obj _ \<Rightarrow> True | _ \<Rightarrow> False)"

definition isPlainObject :: "jsval \<Rightarrow> bool" where
  "isPlainObject v =
     (if js_typeof v \<noteq> ''object'' \<or> v = Null then False else plain_prototype v)"

definition Array_isArray :: "jsval \<Rightarrow> bool" where
  "Array_isArray v = (case v of Arr _ \<Rightarrow> True | _ \<Rightarrow> False)"

definition shouldSerializeToJson :: "jsval \<Rightarrow> bool" where
  "shouldSerializeToJson v = (isPlainObject v \<or> Array_isArray v)"

definition instanceof_FormData :: "jsval \<Rightarrow> bool" where
  "instanceof_FormData v = (case v of FormData _ \<Rightarrow> True | _ \<Rightarrow> False)"

text \<open>
  \<open>extractErrorMessage\<close>; \<open>None\<close> is \<open>null\<close>. A string counts when it is not blank and is
  returned as it is; an object counts when it has a \<open>message\<close> property that is a
  string, returned trimmed, \<open>null\<close> when blank.
\<close>

fun extractErrorMessage :: "jsval \<Rightarrow> string option" where
  "extractErrorMessage (Str s) = (if trim s \<noteq> [] then Some s else None)"
| "extractErrorMessage (Obj kvs) =
     (case map_of kvs ''message'' of
        Some (Str m) \<Rightarrow> (if trim m = [] then None else Some (trim m))
      | _ \<Rightarrow> None)"
| "extractErrorMessage (ErrorObj m) = (if trim m = [] then None else Some (trim m))"
| "extractErrorMessage _ = None"


subsection \<open>\<open>fetcher\<close>\<close>

text \<open>
  \<open>fetcher\<close> in three parts. \<open>fetcher_request\<close> (lines 70 to 91) builds the
  \<open>RequestInit\<close> from the options: the default method, the header list, and the body, which is left out when
  \<open>undefined\<close> or \<open>null\<close>, passed through with the content type deleted when it is a
  form, serialised (with the JSON content type set unless the caller set one) when it
  is a plain object or an array, and passed through otherwise.
\<close>

definition no_options :: RequestOptions where
  "no_options = \<lparr>http_method = None, body = Undefined, headers = [], restOptions = []\<rparr>"

definition fetcher_request :: "runtime \<Rightarrow> RequestOptions option \<Rightarrow> RequestInit" where
  "fetcher_request R options =
     (let opts = (case options of None \<Rightarrow> no_options | Some given \<Rightarrow> given);
          m = (case http_method opts of None \<Rightarrow> GET | Some given \<Rightarrow> given);
          requestHeaders = Headers_new (headers opts);
          requestInit = \<lparr>init_method = m, init_headers = requestHeaders,
                         init_body = None, init_rest = restOptions opts\<rparr>
      in if body opts \<noteq> Undefined \<and> body opts \<noteq> Null then
           (if instanceof_FormData (body opts) then
              requestInit\<lparr>init_headers := Headers_delete requestHeaders ''Content-Type'',
                           init_body := Some (body opts)\<rparr>
            else if shouldSerializeToJson (body opts) then
              requestInit\<lparr>init_headers :=
                             (if \<not> Headers_has requestHeaders ''Content-Type''
                              then Headers_set requestHeaders ''Content-Type'' ''application/json''
                              else requestHeaders),
                           init_body := Some (Str (JSON_stringify R (body opts)))\<rparr>
            else requestInit\<lparr>init_body := Some (body opts)\<rparr>)
         else requestInit)"

text \<open>
  \<open>fetcher_response\<close> (lines 96 to 125) is what follows \<open>await fetch(url, requestInit)\<close>:
  a response that is not \<open>ok\<close> is thrown as an \<open>Error\<close> whose message comes from the decoded body, or is the
  status line when decoding rejects or yields nothing; a response without content is
  \<open>undefined\<close>; a JSON response is parsed unless its text is blank; any other response
  is its text.
\<close>

definition fetcher_response :: "runtime \<Rightarrow> HttpMethod \<Rightarrow> Response \<Rightarrow> jsval settled" where
  "fetcher_response R m response =
     (if \<not> ok response then
        (let extracted = (case json_body response of
                            Inr data \<Rightarrow> extractErrorMessage data
                          | Inl _ \<Rightarrow> None);
             errorMessage = (case extracted of
                               Some msg \<Rightarrow> if msg = [] then ''HTTP error! Status: '' @ decimal (status response) else msg
                             | None \<Rightarrow> ''HTTP error! Status: '' @ decimal (status response))
         in Inl (ErrorObj errorMessage))
      else
        (let responseHasNoContent =
               (m = HEAD \<or> status response = 204 \<or> status response = 205
                \<or> status response = 304
                \<or> map_option trim (Headers_get (resp_headers response) ''content-length'') = Some ''0'')
         in if responseHasNoContent then Inr Undefined
            else
              (let contentType = map_option toLowerCase (Headers_get (resp_headers response) ''content-type'')
               in if (case contentType of None \<Rightarrow> False | Some ct \<Rightarrow> ct \<noteq> [] \<and> str_includes ct ''json'') then
                    (case text_body response of
                       Inl e \<Rightarrow> Inl e
                     | Inr txt \<Rightarrow> if trim txt = [] then Inr Undefined else JSON_parse R txt)
                  else
                    (case text_body response of
                       Inl e \<Rightarrow> Inl e
                     | Inr txt \<Rightarrow> Inr (Str txt)))))"

text \<open>The whole call; a rejection of \<open>fetch\<close> itself is rethrown unchanged.\<close>

definition fetcher :: "runtime \<Rightarrow> string \<Rightarrow> RequestOptions option \<Rightarrow> jsval settled" where
  "fetcher R url options =
     (let requestInit = fetcher_request R options
      in case fetch R url requestInit of
           Inl error \<Rightarrow> Inl error
         | Inr response \<Rightarrow> fetcher_response R (init_method requestInit) response)"

section \<open>Retrying (\<open>retry.ts\<close>)\<close>

subsection \<open>Time, cancellation and delays\<close>

text \<open>
  Time is a virtual clock in milliseconds. An \<open>AbortSignal\<close> is described by the
  instant at which its owner aborts it (\<open>None\<close>: never) and by the reason it then
  carries; before that instant \<open>signal.reason\<close> is \<open>undefined\<close>.
\<close>

record AbortSignal =
  abort_at :: "nat option"
  abort_reason :: jsval

definition aborted :: "AbortSignal \<Rightarrow> nat \<Rightarrow> bool" where
  "aborted s now = (case abort_at s of None \<Rightarrow> False | Some a \<Rightarrow> a \<le> now)"

definition reason :: "AbortSignal \<Rightarrow> nat \<Rightarrow> jsval" where
  "reason s now = (if aborted s now then abort_reason s else Undefined)"

text \<open>\<open>Math.round\<close> rounds half up; arithmetic on numbers is exact.\<close>

definition Math_round :: "real \<Rightarrow> int" where
  "Math_round x = \<lfloor>x + 1 / 2\<rfloor>"

text \<open>
  \<open>defaultDelay\<close> (lines 26 to 30), given the value \<open>rnd\<close> that \<open>Math.random()\<close> returns in
  it, which lies in \<open>[0, 1)\<close>.
\<close>

definition defaultDelay :: "real \<Rightarrow> nat \<Rightarrow> int" where
  "defaultDelay rnd attempt =
     (let baseDelay = 200;
          jitter = rnd * 0.3 + 0.85
      in Math_round (baseDelay * 2 ^ attempt * jitter))"

text \<open>
  The timer of \<open>setTimeout(callback, ms)\<close> takes a delay of 32 bits: as Node and Bun do,
  a delay that is not between 1 and \<open>TIMEOUT_MAX\<close>, which is \<open>2^31 - 1\<close>, counts as 1
  millisecond. \<open>timer_ms ms\<close> is the time after which the timer fires.
\<close>

definition TIMEOUT_MAX :: int where
  "TIMEOUT_MAX = 2147483647"

definition timer_ms :: "int \<Rightarrow> nat" where
  "timer_ms ms = (if 1 \<le> ms \<and> ms \<le> TIMEOUT_MAX then nat ms else 1)"

text \<open>
  \<open>wait ms signal now\<close> (lines 32 to 52) starts at \<open>now\<close> and gives the instant at which
  the promise settles and how. An aborted signal rejects at once; otherwise the timer
  races the abort event, which wins when it comes strictly before the timer is due.
\<close>

definition wait :: "int \<Rightarrow> AbortSignal option \<Rightarrow> nat \<Rightarrow> nat \<times> unit settled" where
  "wait ms signal now =
     (case signal of
        None \<Rightarrow> (now + timer_ms ms, Inr ())
      | Some s \<Rightarrow>
          if aborted s now then (now, Inl (reason s now))
          else (case abort_at s of
                  None \<Rightarrow> (now + timer_ms ms, Inr ())
                | Some a \<Rightarrow> if a < now + timer_ms ms then (a, Inl (reason s a))
                            else (now + timer_ms ms, Inr ())))"

subsection \<open>Targets\<close>

text \<open>
  A target is a function (\<open>Thunk f\<close>: its \<open>k\<close>-th call, counted from 0, takes \<open>fst (f k)\<close>
  milliseconds and settles as \<open>snd (f k)\<close>; a synchronous throw is a rejection after 0
  milliseconds) or any other value.
\<close>

datatype RetryTarget =
    Thunk "nat \<Rightarrow> nat \<times> jsval settled"
  | Value jsval

definition instanceof_URL :: "jsval \<Rightarrow> bool" where
  "instanceof_URL v = (case v of URL _ \<Rightarrow> True | _ \<Rightarrow> False)"

definition isFetchTarget :: "jsval \<Rightarrow> bool" where
  "isFetchTarget v = (js_typeof v = ''string'' \<or> instanceof_URL v)"

text \<open>\<open>target instanceof URL ? target.toString() : target\<close>, for a fetch target.\<close>

definition target_url :: "jsval \<Rightarrow> string" where
  "target_url v = (case v of URL href \<Rightarrow> href | Str url \<Rightarrow> url | _ \<Rightarrow> [])"

text \<open>
  The surroundings of one \<open>retry\<close> call: the runtime that the \<open>k\<close>-th resolution of the
  target finds and the time a fetch then takes, and the value \<open>Math.random()\<close> returns
  inside the delay function when it is evaluated for a given attempt.
\<close>

record world =
  runtime_at :: "nat \<Rightarrow> runtime"
  latency :: "nat \<Rightarrow> nat"
  Math_random :: "nat \<Rightarrow> real"

definition resolveTarget ::
  "world \<Rightarrow> RetryTarget \<Rightarrow> RequestOptions option \<Rightarrow> nat \<Rightarrow> nat \<times> jsval settled" where
  "resolveTarget W target requestOptions k =
     (case target of
        Thunk f \<Rightarrow> f k
      | Value v \<Rightarrow>
          if isFetchTarget v then
            (let url = target_url v
             in (latency W k, fetcher (runtime_at W k) url requestOptions))
          else (0, Inr v))"


subsection \<open>\<open>retry\<close>\<close>

text \<open>
  The \<open>delay\<close> option is a fixed number of milliseconds or a function of the attempt;
  the function is also handed the value a call of \<open>Math.random()\<close> yields in it, so
  that \<open>defaultDelay\<close> is such a function. The \<open>retryable\<close> predicate and the delay
  function are taken to return normally.
\<close>

datatype Delay = Fixed int | DelayFunction "real \<Rightarrow> nat \<Rightarrow> int"

record RetryOptions =
  attempts :: "int option"
  delay :: "Delay option"
  signal :: "AbortSignal option"
  retryable :: "(jsval \<Rightarrow> nat \<Rightarrow> bool) option"

text \<open>
  The variables of the loop, with the clock and the number of times the target has been
  resolved so far.
\<close>

record loop_state =
  attempt :: nat
  lastError :: jsval
  clock :: nat
  calls :: nat

text \<open>
  How a call of \<open>retry\<close> ends: the settlement of its promise, the number of times the
  target was resolved, and the instant of the settlement.
\<close>

record retry_result =
  outcome :: "jsval settled"
  invocations :: nat
  settled_at :: nat

definition signal_aborted :: "AbortSignal option \<Rightarrow> nat \<Rightarrow> bool" where
  "signal_aborted sig now = (case sig of None \<Rightarrow> False | Some s \<Rightarrow> aborted s now)"

definition signal_reason :: "AbortSignal option \<Rightarrow> nat \<Rightarrow> jsval" where
  "signal_reason sig now = (case sig of None \<Rightarrow> Undefined | Some s \<Rightarrow> reason s now)"

text \<open>
  \<open>delayMs\<close>: the delay function evaluated at the attempt, or the fixed delay clamped at
  0.
\<close>

definition delayMs :: "world \<Rightarrow> Delay \<Rightarrow> nat \<Rightarrow> int" where
  "delayMs W dly attempt' =
     (case dly of
        DelayFunction f \<Rightarrow> f (Math_random W attempt') attempt'
      | Fixed ms \<Rightarrow> max ms 0)"

text \<open>
  The \<open>while\<close> loop of \<open>retry\<close> and the \<open>throw lastError\<close> after it (lines 96 to 123);
  \<open>n\<close>, \<open>dly\<close>, \<open>sig\<close> and \<open>rt\<close> are the options \<open>attempts\<close>, \<open>delay\<close>, \<open>signal\<close> and
  \<open>retryable\<close> after their defaults.
\<close>

function retry_loop ::
  "world \<Rightarrow> RetryTarget \<Rightarrow> RequestOptions option \<Rightarrow> int \<Rightarrow> Delay \<Rightarrow> AbortSignal option
     \<Rightarrow> (jsval \<Rightarrow> nat \<Rightarrow> bool) \<Rightarrow> loop_state \<Rightarrow> retry_result" where
  "retry_loop W target requestOptions n dly sig rt st =
     (if int (attempt st) < n then
        (let r = resolveTarget W target requestOptions (calls st);
             now = clock st + fst r;
             made = calls st + 1
         in case snd r of
              Inr v \<Rightarrow> \<lparr>outcome = Inr v, invocations = made, settled_at = now\<rparr>
            | Inl error \<Rightarrow>
                if signal_aborted sig now then
                  \<lparr>outcome = Inl (coalesce (signal_reason sig now) error),
                   invocations = made, settled_at = now\<rparr>
                else
                  (let attempt' = attempt st + 1;
                       shouldRetry = (int attempt' < n \<and> rt error attempt')
                   in if \<not> shouldRetry then
                        \<lparr>outcome = Inl error, invocations = made, settled_at = now\<rparr>
                      else
                        (let w = wait (delayMs W dly attempt') sig now
                         in case snd w of
                              Inl why \<Rightarrow> \<lparr>outcome = Inl why, invocations = made, settled_at = fst w\<rparr>
                            | Inr _ \<Rightarrow>
                                retry_loop W target requestOptions n dly sig rt
                                  (st\<lparr>attempt := attempt', lastError := error,
                                      clock := fst w, calls := made\<rparr>))))
      else \<lparr>outcome = Inl (lastError st), invocations = calls st, settled_at = clock st\<rparr>)"
  by pat_completeness auto
termination
  by (relation "measure (\<lambda>(W, target, requestOptions, n, dly, sig, rt, st). nat (n - int (attempt st)))")
     auto

declare retry_loop.simps [simp del]

text \<open>
  \<open>retry\<close> (lines 80 to 124), called at the instant \<open>start\<close>: the defaults of the
  options, the check of \<open>attempts\<close>, then the loop.
\<close>

definition retry ::
  "world \<Rightarrow> RetryTarget \<Rightarrow> RetryOptions \<Rightarrow> RequestOptions option \<Rightarrow> nat \<Rightarrow> retry_result" where
  "retry W target retryOptions requestOptions start =
     (let n = (case attempts retryOptions of None \<Rightarrow> 3 | Some given \<Rightarrow> given);
          dly = (case delay retryOptions of None \<Rightarrow> DelayFunction defaultDelay | Some given \<Rightarrow> given);
          sig = signal retryOptions;
          rt = (case retryable retryOptions of None \<Rightarrow> (\<lambda>error attempt. True) | Some given \<Rightarrow> given)
      in if n < 1 then
           \<lparr>outcome = Inl (ErrorObj ''retry: attempts must be at least 1''),
            invocations = 0, settled_at = start\<rparr>
         else
           retry_loop W target requestOptions n dly sig rt
             \<lparr>attempt = 0, lastError = Undefined, clock = start, calls = 0\<rparr>)"

section \<open>Capturing results (\<open>try-catch.ts\<close>)\<close>

text \<open>
  What can be awaited is a plain value or a promise, given by its settlement. The input
  of \<open>tryCatch\<close> is a function (given by what calling it does: it throws, \<open>Inl\<close>, or
  returns something to await) or something to await; a promise is not a fetch target.
\<close>

datatype Awaitable = Plain jsval | Promise "jsval settled"

datatype TryCatchInput =
    Function "Awaitable settled"
  | Input Awaitable

definition resolveInput ::
  "runtime \<Rightarrow> TryCatchInput \<Rightarrow> RequestOptions option \<Rightarrow> Awaitable settled" where
  "resolveInput R input requestOptions =
     (case input of
        Function called \<Rightarrow> called
      | Input (Promise p) \<Rightarrow> Inr (Promise p)
      | Input (Plain v) \<Rightarrow>
          if isFetchTarget v then
            (let url = target_url v
             in Inr (Promise (fetcher R url requestOptions)))
          else Inr (Plain v))"

definition await :: "Awaitable \<Rightarrow> jsval settled" where
  "await a = (case a of Plain v \<Rightarrow> Inr v | Promise p \<Rightarrow> p)"

text \<open>
  The expression \<open>await resolveInput(input, requestOptions)\<close> inside the \<open>try\<close> block:
  \<open>Inl\<close> when the call throws or the awaited promise rejects.
\<close>

definition awaited ::
  "runtime \<Rightarrow> TryCatchInput \<Rightarrow> RequestOptions option \<Rightarrow> jsval settled" where
  "awaited R input requestOptions =
     (case resolveInput R input requestOptions of
        Inl thrown \<Rightarrow> Inl thrown
      | Inr a \<Rightarrow> await a)"

text \<open>
  \<open>tryCatch\<close>: the settlement of the promise it returns; the pair is the two-element
  array.
\<close>

definition tryCatch ::
  "runtime \<Rightarrow> TryCatchInput \<Rightarrow> RequestOptions option \<Rightarrow> (jsval \<times> jsval) settled" where
  "tryCatch R input requestOptions =
     (case awaited R input requestOptions of
        Inr data \<Rightarrow> Inr (data, Null)
      | Inl error \<Rightarrow> Inr (Null, error))"

section \<open>Notions used in the properties\<close>

text \<open>A signal option that never cancels: no signal, or one that is never aborted.\<close>

definition never_aborts :: "AbortSignal option \<Rightarrow> bool" where
  "never_aborts sig = (case sig of None \<Rightarrow> True | Some s \<Rightarrow> abort_at s = None)"

text \<open>A response whose content type mentions JSON, in any case.\<close>

definition json_flavored :: "Response \<Rightarrow> bool" where
  "json_flavored response =
     (case Headers_get (resp_headers response) ''content-type'' of
        None \<Rightarrow> False
      | Some ct \<Rightarrow> str_includes (toLowerCase ct) ''json'')"

text \<open>A result pair of which exactly one side is neither \<open>null\<close> nor \<open>undefined\<close>.\<close>

definition one_sided :: "jsval \<times> jsval \<Rightarrow> bool" where
  "one_sided p = (nullish (fst p) \<noteq> nullish (snd p))"

section \<open>Scenarios\<close>

text \<open>
  Concrete surroundings and inputs, after the test suite: a runtime without network, one
  that answers every request with a given response, targets that always fail, signals
  and a \<open>retryable\<close> callback.
\<close>

definition sample_parse :: "string \<Rightarrow> jsval settled" where
  \<open>sample_parse txt =
     (if txt = ''{"hello":"world"}'' then Inr (Obj [(''hello'', Str ''world'')])
      else Inl (ErrorObj ''Unexpected token''))\<close>

definition sample_stringify :: "jsval \<Rightarrow> string" where
  \<open>sample_stringify v =
     (if v = Obj [(''completed'', Bool False)] then ''{"completed":false}'' else ''[]'')\<close>

definition offline :: runtime where
  "offline = \<lparr>fetch = (\<lambda>url init. Inl (ErrorObj ''fetch failed'')),
              JSON_parse = sample_parse, JSON_stringify = sample_stringify\<rparr>"

definition served :: "Response \<Rightarrow> runtime" where
  "served response = \<lparr>fetch = (\<lambda>url init. Inr response),
                      JSON_parse = sample_parse, JSON_stringify = sample_stringify\<rparr>"

definition hello_response :: Response where
  \<open>hello_response = \<lparr>ok = True, status = 200,
                     resp_headers = [(''content-type'', ''application/json'')],
                     text_body = Inr ''{"hello":"world"}'',
                     json_body = Inr (Obj [(''hello'', Str ''world'')])\<rparr>\<close>

text \<open>The no-break space U+00A0 and the byte order mark U+FEFF, encoded.\<close>

definition nbsp :: string where
  "nbsp = [CHR 0xC2, CHR 0xA0]"

definition bom :: string where
  "bom = [CHR 0xEF, CHR 0xBB, CHR 0xBF]"

definition blank_response :: Response where
  "blank_response = \<lparr>ok = True, status = 200,
                     resp_headers = [(''content-type'', ''application/json'')],
                     text_body = Inr ('' '' @ nbsp @ bom),
                     json_body = Inl (ErrorObj ''Unexpected end of JSON input'')\<rparr>"

definition empty_response :: Response where
  "empty_response = \<lparr>ok = True, status = 204, resp_headers = [],
                     text_body = Inr [],
                     json_body = Inl (ErrorObj ''Unexpected end of JSON input'')\<rparr>"

definition boom_response :: Response where
  \<open>boom_response = \<lparr>ok = False, status = 500,
                    resp_headers = [(''content-type'', ''application/json'')],
                    text_body = Inr ''{"message":"Boom"}'',
                    json_body = Inr (Obj [(''message'', Str ''Boom'')])\<rparr>\<close>

definition quiet_world :: world where
  "quiet_world = \<lparr>runtime_at = (\<lambda>k. offline), latency = (\<lambda>k. 0), Math_random = (\<lambda>k. 0)\<rparr>"

definition numbered_failure :: "nat \<Rightarrow> nat \<times> jsval settled" where
  "numbered_failure k = (0, Inl (Num (int k)))"

definition always_nope :: "nat \<Rightarrow> nat \<times> jsval settled" where
  "always_nope k = (0, Inl (ErrorObj ''nope''))"

definition always_flaky :: "nat \<Rightarrow> nat \<times> jsval settled" where
  "always_flaky k = (10, Inl (ErrorObj ''flaky''))"

definition first_only :: "jsval \<Rightarrow> nat \<Rightarrow> bool" where
  "first_only error attempt' = (attempt' = 0)"

definition cancelled_at :: "nat \<Rightarrow> jsval \<Rightarrow> AbortSignal" where
  "cancelled_at a why = \<lparr>abort_at = Some a, abort_reason = why\<rparr>"

section \<open>Properties of \<open>retry\<close>\<close>

subsection \<open>Runs in which every attempt fails\<close>

lemma never_aborts_signal_aborted: "never_aborts sig \<Longrightarrow> \<not> signal_aborted sig now"
  by (auto simp: never_aborts_def signal_aborted_def aborted_def split: option.splits)

lemma never_aborts_wait: "never_aborts sig \<Longrightarrow> snd (wait ms sig now) = Inr ()"
  by (auto simp: never_aborts_def wait_def aborted_def split: option.splits)

text \<open>
  One turn of the loop that fails, is not cancelled and is to be retried leads to the
  next loop state.
\<close>

lemma retry_loop_again:
  assumes "never_aborts sig"
    and "snd (resolveTarget W target ro (calls st)) = Inl e"
    and "int (attempt st + 1) < n" and "rt e (attempt st + 1)"
  shows "retry_loop W target ro n dly sig rt st =
         retry_loop W target ro n dly sig rt
           (st\<lparr>attempt := attempt st + 1, lastError := e,
               clock := fst (wait (delayMs W dly (attempt st + 1)) sig
                                  (clock st + fst (resolveTarget W target ro (calls st)))),
               calls := calls st + 1\<rparr>)"
proof -
  from assms(3) have "int (attempt st) < n" by simp
  then show ?thesis
    using assms never_aborts_signal_aborted [OF assms(1)] never_aborts_wait [OF assms(1)]
    by (subst retry_loop.simps) (simp add: Let_def)
qed

text \<open>One turn of the loop that fails, is not cancelled and is not to be retried.\<close>

lemma retry_loop_give_up:
  assumes "never_aborts sig"
    and "snd (resolveTarget W target ro (calls st)) = Inl e"
    and "int (attempt st) < n"
    and "int (attempt st + 1) = n \<or> \<not> rt e (attempt st + 1)"
  shows "outcome (retry_loop W target ro n dly sig rt st) = Inl e
       \<and> invocations (retry_loop W target ro n dly sig rt st) = calls st + 1"
  using assms never_aborts_signal_aborted [OF assms(1)]
  by (subst (1 2) retry_loop.simps) (auto simp: Let_def)

text \<open>
  From a loop state with \<open>attempt st < m\<close>: when the resolutions up to the one that
  brings the counter to \<open>m\<close> all fail, \<open>retryable\<close> accepts every counter below \<open>m\<close> and
  the loop stops at \<open>m\<close> (the attempts are used up, or \<open>retryable\<close> refuses), then the
  call fails with the error of that last resolution, after \<open>m - attempt st\<close> further
  resolutions.
\<close>

lemma retry_loop_failing:
  assumes "never_aborts sig"
    and "\<forall>k. calls st \<le> k \<and> k < calls st + (m - attempt st)
           \<longrightarrow> snd (resolveTarget W target ro k) = Inl (err k)"
    and "attempt st < m" and "int m \<le> n"
    and "\<forall>j. attempt st < j \<and> j < m \<longrightarrow> rt (err (calls st + (j - attempt st) - 1)) j"
    and "int m = n \<or> \<not> rt (err (calls st + (m - attempt st) - 1)) m"
  shows "outcome (retry_loop W target ro n dly sig rt st)
           = Inl (err (calls st + (m - attempt st) - 1))
       \<and> invocations (retry_loop W target ro n dly sig rt st) = calls st + (m - attempt st)"
  using assms
proof (induction "m - attempt st - 1" arbitrary: st)
  case 0
  then have m: "m = attempt st + 1" by simp
  from 0 have e: "snd (resolveTarget W target ro (calls st)) = Inl (err (calls st))" by simp
  from 0 m have stop: "int (attempt st + 1) = n \<or> \<not> rt (err (calls st)) (attempt st + 1)"
    by simp
  from 0 m have lt: "int (attempt st) < n" by simp
  from retry_loop_give_up [where rt = rt and e = "err (calls st)", OF "0.prems"(1) e lt stop] m
  show ?case by simp
next
  case (Suc d)
  from Suc have e: "snd (resolveTarget W target ro (calls st)) = Inl (err (calls st))" by simp
  from Suc have a1: "attempt st + 1 < m" by simp
  with Suc have go: "int (attempt st + 1) < n" "rt (err (calls st)) (attempt st + 1)"
    by auto
  define st' where "st' = st\<lparr>attempt := attempt st + 1, lastError := err (calls st),
      clock := fst (wait (delayMs W dly (attempt st + 1)) sig
                         (clock st + fst (resolveTarget W target ro (calls st)))),
      calls := calls st + 1\<rparr>"
  have step: "retry_loop W target ro n dly sig rt st = retry_loop W target ro n dly sig rt st'"
    unfolding st'_def
    by (rule retry_loop_again [where rt = rt and e = "err (calls st)", OF Suc.prems(1) e go])
  have a': "attempt st' = attempt st + 1" and c': "calls st' = calls st + 1"
    by (simp_all add: st'_def)
  have d: "d = m - attempt st' - 1" using Suc(2) a' by simp
  have IH: "outcome (retry_loop W target ro n dly sig rt st')
              = Inl (err (calls st' + (m - attempt st') - 1))
          \<and> invocations (retry_loop W target ro n dly sig rt st') = calls st' + (m - attempt st')"
  proof (rule Suc(1) [OF d Suc.prems(1)])
    show "\<forall>k. calls st' \<le> k \<and> k < calls st' + (m - attempt st')
            \<longrightarrow> snd (resolveTarget W target ro k) = Inl (err k)"
      using Suc.prems(2) a' c' a1 by auto
    show "attempt st' < m" using a1 a' by simp
    show "int m \<le> n" by (rule Suc.prems(4))
    show "\<forall>j. attempt st' < j \<and> j < m \<longrightarrow> rt (err (calls st' + (j - attempt st') - 1)) j"
    proof (intro allI impI)
      fix j assume j: "attempt st' < j \<and> j < m"
      then have "rt (err (calls st + (j - attempt st) - 1)) j"
        using Suc.prems(5) a' by auto
      moreover have "calls st + (j - attempt st) - 1 = calls st' + (j - attempt st') - 1"
        using j a' c' by auto
      ultimately show "rt (err (calls st' + (j - attempt st') - 1)) j" by simp
    qed
    have "calls st + (m - attempt st) - 1 = calls st' + (m - attempt st') - 1"
      using a1 a' c' by auto
    then show "int m = n \<or> \<not> rt (err (calls st' + (m - attempt st') - 1)) m"
      using Suc.prems(6) by simp
  qed
  have "calls st' + (m - attempt st') = calls st + (m - attempt st)"
    using a1 a' c' by auto
  with IH step show ?case by simp
qed

text \<open>
  C1. For every number of attempts \<open>N \<ge> 1\<close> and every target that fails at every
  resolution (the \<open>k\<close>-th with the error \<open>err k\<close>), \<open>retry\<close> with the default \<open>retryable\<close>
  and no cancellation (no signal, or a signal that is never aborted) resolves the
  target exactly \<open>N\<close> times and fails with the error of the \<open>N\<close>-th resolution. The
  delay option is arbitrary.
\<close>

theorem retry_exhausts_attempts:
  assumes "1 \<le> N" and "attempts opts = Some N" and "retryable opts = None"
    and "never_aborts (signal opts)"
    and "\<forall>k. snd (resolveTarget W target requestOptions k) = Inl (err k)"
  shows "outcome (retry W target opts requestOptions start) = Inl (err (nat N - 1))
       \<and> invocations (retry W target opts requestOptions start) = nat N"
proof -
  define st0 where "st0 = \<lparr>attempt = 0, lastError = Undefined, clock = start, calls = 0\<rparr>"
  have a0: "attempt st0 = 0" and c0: "calls st0 = 0" by (simp_all add: st0_def)
  have "outcome (retry_loop W target requestOptions N
                   (case delay opts of None \<Rightarrow> DelayFunction defaultDelay | Some given \<Rightarrow> given)
                   (signal opts) (\<lambda>error attempt'. True) st0)
          = Inl (err (calls st0 + (nat N - attempt st0) - 1))
      \<and> invocations (retry_loop W target requestOptions N
                   (case delay opts of None \<Rightarrow> DelayFunction defaultDelay | Some given \<Rightarrow> given)
                   (signal opts) (\<lambda>error attempt'. True) st0)
          = calls st0 + (nat N - attempt st0)"
    using assms a0 c0 by (intro retry_loop_failing) auto
  with assms(1-3) show ?thesis
    by (simp add: retry_def Let_def st0_def)
qed

theorem retry_exhausts_attempts_witness:
  "outcome (retry quiet_world (Thunk numbered_failure)
              \<lparr>attempts = Some 3, delay = None, signal = None, retryable = None\<rparr> None 0)
     = Inl (Num 2)
   \<and> invocations (retry quiet_world (Thunk numbered_failure)
              \<lparr>attempts = Some 3, delay = None, signal = None, retryable = None\<rparr> None 0)
     = 3"
proof -
  let ?opts = "\<lparr>attempts = Some 3, delay = None, signal = None, retryable = None\<rparr>"
  have n: "(1::int) \<le> 3" by simp
  have a: "attempts ?opts = Some 3" and r: "retryable ?opts = None" by simp_all
  have s: "never_aborts (signal ?opts)" by (simp add: never_aborts_def)
  have f: "\<forall>k. snd (resolveTarget quiet_world (Thunk numbered_failure) None k)
                 = Inl (Num (int k))"
    by (simp add: resolveTarget_def numbered_failure_def)
  from retry_exhausts_attempts [OF n a r s f, of 0] show ?thesis by simp
qed

text \<open>
  C2, as stated, fails. In the test suite's run (three attempts, a target that always
  rejects, a \<open>retryable\<close> that refuses every counter but 0) the predicate is consulted
  with the counter 1 and refuses, and the target has been called once, not twice.
\<close>

theorem retry_refused_at_1_counterexample:
  "\<not> first_only (ErrorObj ''nope'') 1 \<and> (1::int) < 3
   \<and> invocations (retry quiet_world (Thunk always_nope)
        \<lparr>attempts = Some 3, delay = Some (Fixed 0), signal = None,
         retryable = Some first_only\<rparr> None 0) = 1
   \<and> invocations (retry quiet_world (Thunk always_nope)
        \<lparr>attempts = Some 3, delay = Some (Fixed 0), signal = None,
         retryable = Some first_only\<rparr> None 0) \<noteq> 1 + 1"
  by (simp add: retry_def retry_loop.simps resolveTarget_def always_nope_def first_only_def
      signal_aborted_def)

text \<open>
  C2, amended. When the first \<open>k\<close> resolutions of the target fail, \<open>retryable\<close> accepts
  the counters below \<open>k\<close> and refuses the counter \<open>k\<close> (the counter after the increment:
  1 after the first failure), with \<open>1 \<le> k < attempts\<close> and no cancellation, then \<open>retry\<close>
  stops after exactly \<open>k\<close> resolutions of the target and fails with the error of the
  \<open>k\<close>-th one.
\<close>

theorem retry_stops_when_refused:
  assumes "attempts opts = Some N" and "retryable opts = Some rt"
    and "never_aborts (signal opts)"
    and "1 \<le> k" and "int k < N"
    and "\<forall>i<k. snd (resolveTarget W target requestOptions i) = Inl (err i)"
    and "\<forall>j. 1 \<le> j \<and> j < k \<longrightarrow> rt (err (j - 1)) j"
    and "\<not> rt (err (k - 1)) k"
  shows "outcome (retry W target opts requestOptions start) = Inl (err (k - 1))
       \<and> invocations (retry W target opts requestOptions start) = k"
proof -
  define st0 where "st0 = \<lparr>attempt = 0, lastError = Undefined, clock = start, calls = 0\<rparr>"
  have a0: "attempt st0 = 0" and c0: "calls st0 = 0" by (simp_all add: st0_def)
  have "outcome (retry_loop W target requestOptions N
                   (case delay opts of None \<Rightarrow> DelayFunction defaultDelay | Some given \<Rightarrow> given)
                   (signal opts) rt st0)
          = Inl (err (calls st0 + (k - attempt st0) - 1))
      \<and> invocations (retry_loop W target requestOptions N
                   (case delay opts of None \<Rightarrow> DelayFunction defaultDelay | Some given \<Rightarrow> given)
                   (signal opts) rt st0)
          = calls st0 + (k - attempt st0)"
    using assms a0 c0 by (intro retry_loop_failing) auto
  moreover from assms(4,5) have "\<not> N < 1" by simp
  ultimately show ?thesis
    using assms(1,2) by (simp add: retry_def Let_def st0_def)
qed

theorem retry_stops_when_refused_witness:
  "outcome (retry quiet_world (Thunk always_nope)
        \<lparr>attempts = Some 3, delay = Some (Fixed 0), signal = None,
         retryable = Some first_only\<rparr> None 0) = Inl (ErrorObj ''nope'')
   \<and> invocations (retry quiet_world (Thunk always_nope)
        \<lparr>attempts = Some 3, delay = Some (Fixed 0), signal = None,
         retryable = Some first_only\<rparr> None 0) = 1"
proof -
  let ?opts = "\<lparr>attempts = Some 3, delay = Some (Fixed 0), signal = None,
                retryable = Some first_only\<rparr>"
  have a: "attempts ?opts = Some 3" and r: "retryable ?opts = Some first_only" by simp_all
  have s: "never_aborts (signal ?opts)" by (simp add: never_aborts_def)
  have k: "(1::nat) \<le> 1" "int 1 < 3" by simp_all
  have f: "\<forall>i<1. snd (resolveTarget quiet_world (Thunk always_nope) None i)
                   = Inl (ErrorObj ''nope'')"
    by (simp add: resolveTarget_def always_nope_def)
  have acc: "\<forall>j. 1 \<le> j \<and> j < 1 \<longrightarrow> first_only (ErrorObj ''nope'') j" by simp
  have ref: "\<not> first_only (ErrorObj ''nope'') 1" by (simp add: first_only_def)
  from retry_stops_when_refused [OF a r s k f acc ref, of 0] show ?thesis by simp
qed

subsection \<open>Cancellation\<close>

text \<open>
  C3, as stated, fails for a reason that is \<open>null\<close>. The target is in flight from 0 to
  10 and rejects with \<open>flaky\<close>; the signal was aborted at 5 with the reason \<open>null\<close>, so
  it is active when the failure is caught; the call fails with \<open>flaky\<close>, not with the
  reason.
\<close>

theorem retry_null_reason_counterexample:
  "signal_aborted (Some (cancelled_at 5 Null)) 10
   \<and> outcome (retry quiet_world (Thunk always_flaky)
        \<lparr>attempts = Some 3, delay = Some (Fixed 50), signal = Some (cancelled_at 5 Null),
         retryable = None\<rparr> None 0) = Inl (ErrorObj ''flaky'')
   \<and> outcome (retry quiet_world (Thunk always_flaky)
        \<lparr>attempts = Some 3, delay = Some (Fixed 50), signal = Some (cancelled_at 5 Null),
         retryable = None\<rparr> None 0) \<noteq> Inl (abort_reason (cancelled_at 5 Null))"
  by (simp add: retry_def retry_loop.simps resolveTarget_def always_flaky_def cancelled_at_def
      signal_aborted_def signal_reason_def reason_def aborted_def coalesce_def nullish_def)

text \<open>
  C3, amended. Whenever a failure of the target is caught in \<open>retry\<close> (in any turn of the
  loop) and the signal is already active, \<open>retry\<close> fails at once, without a further
  resolution of the target and without a delay: with the signal's reason, as it is and
  in preference to the error of the operation, when the reason is neither \<open>null\<close> nor
  \<open>undefined\<close>; with the error of the operation when the reason is \<open>null\<close> or
  \<open>undefined\<close>.
\<close>

theorem retry_abort_precedence:
  assumes "int (attempt st) < n"
    and "resolveTarget W target requestOptions (calls st) = (d, Inl error)"
    and "aborted s (clock st + d)"
  shows "(\<not> nullish (abort_reason s) \<longrightarrow>
            retry_loop W target requestOptions n dly (Some s) rt st =
              \<lparr>outcome = Inl (abort_reason s), invocations = calls st + 1,
               settled_at = clock st + d\<rparr>)
       \<and> (nullish (abort_reason s) \<longrightarrow>
            retry_loop W target requestOptions n dly (Some s) rt st =
              \<lparr>outcome = Inl error, invocations = calls st + 1, settled_at = clock st + d\<rparr>)"
  using assms
  by (subst (1 2) retry_loop.simps)
     (simp add: Let_def signal_aborted_def signal_reason_def reason_def coalesce_def)

theorem retry_abort_precedence_witness:
  "retry quiet_world (Thunk always_flaky)
     \<lparr>attempts = Some 3, delay = Some (Fixed 50),
      signal = Some (cancelled_at 5 (ErrorObj ''cancelled'')), retryable = None\<rparr> None 0
     = \<lparr>outcome = Inl (ErrorObj ''cancelled''), invocations = 1, settled_at = 10\<rparr>
   \<and> retry quiet_world (Thunk always_flaky)
     \<lparr>attempts = Some 3, delay = Some (Fixed 50),
      signal = Some (cancelled_at 5 Undefined), retryable = None\<rparr> None 0
     = \<lparr>outcome = Inl (ErrorObj ''flaky''), invocations = 1, settled_at = 10\<rparr>"
proof -
  let ?st = "\<lparr>attempt = 0, lastError = Undefined, clock = 0, calls = 0\<rparr>"
  have lt: "int (attempt ?st) < 3" by simp
  have r: "resolveTarget quiet_world (Thunk always_flaky) None (calls ?st)
             = (10, Inl (ErrorObj ''flaky''))"
    by (simp add: resolveTarget_def always_flaky_def)
  have a: "aborted (cancelled_at 5 why) (clock ?st + 10)" for why
    by (simp add: aborted_def cancelled_at_def)
  have given: "\<not> nullish (abort_reason (cancelled_at 5 (ErrorObj ''cancelled'')))"
    and missing: "nullish (abort_reason (cancelled_at 5 Undefined))"
    by (simp_all add: nullish_def cancelled_at_def)
  from retry_abort_precedence [OF lt r a, of "ErrorObj ''cancelled''" "Fixed 50" "\<lambda>error attempt'. True"]
       retry_abort_precedence [OF lt r a, of Undefined "Fixed 50" "\<lambda>error attempt'. True"]
       given missing
  show ?thesis
    by (simp add: retry_def cancelled_at_def)
qed

text \<open>
  C4. A delay that starts when the signal is already aborted rejects at once with the
  signal's reason. And when, in any turn of the loop of \<open>retry\<close>, the target fails
  without the signal being active, the failure is to be retried, and the signal is
  aborted at an instant \<open>a\<close> after the delay has started and before its timer is due
  (the timer of \<open>setTimeout\<close>, which fires after \<open>timer_ms\<close> of the delay computed for the
  attempt: after 1 millisecond when that delay is below 1 or above \<open>2^31 - 1\<close>), then
  the whole call settles at \<open>a\<close> with the signal's reason, and the target is not
  resolved again: the call ends with the resolutions made before the delay.
\<close>

theorem abort_during_delay:
  "(aborted s now \<longrightarrow> wait ms (Some s) now = (now, Inl (abort_reason s)))
   \<and> (int (attempt st) < n
        \<and> resolveTarget W target requestOptions (calls st) = (d, Inl error)
        \<and> int (attempt st + 1) < n \<and> rt error (attempt st + 1)
        \<and> abort_at s = Some a
        \<and> clock st + d < a
        \<and> a < clock st + d + timer_ms (delayMs W dly (attempt st + 1))
      \<longrightarrow> retry_loop W target requestOptions n dly (Some s) rt st =
            \<lparr>outcome = Inl (abort_reason s), invocations = calls st + 1, settled_at = a\<rparr>)"
proof (intro conjI impI)
  assume "aborted s now"
  then show "wait ms (Some s) now = (now, Inl (abort_reason s))"
    by (simp add: wait_def reason_def)
next
  assume h: "int (attempt st) < n
        \<and> resolveTarget W target requestOptions (calls st) = (d, Inl error)
        \<and> int (attempt st + 1) < n \<and> rt error (attempt st + 1)
        \<and> abort_at s = Some a
        \<and> clock st + d < a
        \<and> a < clock st + d + timer_ms (delayMs W dly (attempt st + 1))"
  then have w: "wait (delayMs W dly (attempt st + 1)) (Some s) (clock st + d)
                  = (a, Inl (abort_reason s))"
    by (simp add: wait_def reason_def aborted_def)
  from h have na: "\<not> signal_aborted (Some s) (clock st + d)"
    by (simp add: signal_aborted_def aborted_def)
  from h w na show "retry_loop W target requestOptions n dly (Some s) rt st =
            \<lparr>outcome = Inl (abort_reason s), invocations = calls st + 1, settled_at = a\<rparr>"
    by (subst retry_loop.simps) (simp add: Let_def)
qed

theorem abort_during_delay_witness:
  "wait 50 (Some (cancelled_at 30 (ErrorObj ''cancelled''))) 40 = (40, Inl (ErrorObj ''cancelled''))
   \<and> retry quiet_world (Thunk always_flaky)
       \<lparr>attempts = Some 3, delay = Some (Fixed 50),
        signal = Some (cancelled_at 30 (ErrorObj ''cancelled'')), retryable = None\<rparr> None 0
       = \<lparr>outcome = Inl (ErrorObj ''cancelled''), invocations = 1, settled_at = 30\<rparr>"
proof -
  let ?s = "cancelled_at 30 (ErrorObj ''cancelled'')"
  let ?st = "\<lparr>attempt = 0, lastError = Undefined, clock = 0, calls = 0\<rparr>"
  have before: "aborted ?s 40" by (simp add: aborted_def cancelled_at_def)
  have during: "int (attempt ?st) < 3
        \<and> resolveTarget quiet_world (Thunk always_flaky) None (calls ?st)
            = (10, Inl (ErrorObj ''flaky''))
        \<and> int (attempt ?st + 1) < 3 \<and> (\<lambda>error attempt'. True) (ErrorObj ''flaky'') (attempt ?st + 1)
        \<and> abort_at ?s = Some 30
        \<and> clock ?st + 10 < 30
        \<and> 30 < clock ?st + 10 + timer_ms (delayMs quiet_world (Fixed 50) (attempt ?st + 1))"
    by (simp add: resolveTarget_def always_flaky_def cancelled_at_def delayMs_def timer_ms_def
        TIMEOUT_MAX_def)
  from abort_during_delay [of ?s 40 50 ?st 3 quiet_world "Thunk always_flaky" None 10
         "ErrorObj ''flaky''" "\<lambda>error attempt'. True" 30 "Fixed 50"] before during
  show ?thesis
    by (simp add: retry_def cancelled_at_def)
qed

text \<open>
  A delay above \<open>2^31 - 1\<close> does not keep the call waiting: its timer fires after 1
  millisecond, so an abort that comes later than that finds the call retrying. Here
  the delay is 3000000000 and the signal is aborted at 100; the three attempts end at
  10, 21 and 32, and the call has failed with the error of the target before the abort.
\<close>

lemma retry_overlong_delay:
  "retry quiet_world (Thunk always_flaky)
     \<lparr>attempts = Some 3, delay = Some (Fixed 3000000000),
      signal = Some (cancelled_at 100 (ErrorObj ''cancelled'')), retryable = None\<rparr> None 0
     = \<lparr>outcome = Inl (ErrorObj ''flaky''), invocations = 3, settled_at = 32\<rparr>"
  by (simp add: retry_def retry_loop.simps resolveTarget_def always_flaky_def cancelled_at_def
      signal_aborted_def aborted_def wait_def delayMs_def timer_ms_def TIMEOUT_MAX_def)

subsection \<open>The default backoff\<close>

text \<open>
  C5, as stated, fails. With the draw 0 of \<open>Math.random()\<close> the jitter factor is 0.85 and
  the delay for the attempt 1 is 340, below 400.
\<close>

theorem defaultDelay_lower_bound_counterexample:
  "(0::real) \<le> 0 \<and> (0::real) < 1 \<and> defaultDelay 0 1 = 340
   \<and> \<not> (400 \<le> defaultDelay 0 1 \<and> defaultDelay 0 1 \<le> 460)"
  by (simp add: defaultDelay_def Math_round_def)

text \<open>
  C5, amended. For the attempt 1, the default backoff delay (base 200 ms, doubled per
  attempt, multiplied by a jitter factor drawn from [0.85, 1.15)) always lies in the
  interval [340, 460] ms.
\<close>

theorem defaultDelay_attempt_1_bounds:
  assumes "0 \<le> rnd" and "rnd < 1"
  shows "340 \<le> defaultDelay rnd 1 \<and> defaultDelay rnd 1 \<le> 460"
  using assms unfolding defaultDelay_def Math_round_def Let_def
  by (simp add: le_floor_iff floor_le_iff)

theorem defaultDelay_attempt_1_bounds_witness:
  "(0::real) \<le> 1 / 4 \<and> (1 / 4 :: real) < 1
   \<and> 340 \<le> defaultDelay (1 / 4) 1 \<and> defaultDelay (1 / 4) 1 \<le> 460"
proof -
  have lo: "(0::real) \<le> 1 / 4" and hi: "(1 / 4 :: real) < 1" by simp_all
  from defaultDelay_attempt_1_bounds [OF lo hi] lo hi show ?thesis by simp
qed

subsection \<open>The check of the configuration\<close>

text \<open>
  C6. For every \<open>attempts\<close> below 1, \<open>retry\<close> fails with the configuration error before
  any attempt: the target is resolved zero times, and the promise is rejected at the
  instant of the call, nothing having been awaited.
\<close>

theorem retry_rejects_attempts_below_1:
  assumes "attempts opts = Some N" and "N < 1"
  shows "retry W target opts requestOptions start =
           \<lparr>outcome = Inl (ErrorObj ''retry: attempts must be at least 1''),
            invocations = 0, settled_at = start\<rparr>"
  using assms by (simp add: retry_def)

theorem retry_rejects_attempts_below_1_witness:
  "retry quiet_world (Thunk always_nope)
     \<lparr>attempts = Some 0, delay = None, signal = None, retryable = None\<rparr> None 7 =
     \<lparr>outcome = Inl (ErrorObj ''retry: attempts must be at least 1''),
      invocations = 0, settled_at = 7\<rparr>"
proof -
  let ?opts = "\<lparr>attempts = Some 0, delay = None, signal = None, retryable = None\<rparr>"
  have a: "attempts ?opts = Some 0" by simp
  have n: "(0::int) < 1" by simp
  from retry_rejects_attempts_below_1 [OF a n] show ?thesis .
qed

section \<open>Properties of \<open>fetcher\<close>\<close>

lemma toLowerCase_Content_Type: "toLowerCase ''Content-Type'' = ''content-type''"
  by (simp add: toLowerCase_def lower_char_def)

lemma str_includes_nonempty: "str_includes s sub \<Longrightarrow> sub \<noteq> [] \<Longrightarrow> s \<noteq> []"
  by (cases s) auto

lemma json_flavored_content_type:
  assumes "json_flavored response"
  shows "\<exists>ct. Headers_get (resp_headers response) ''content-type'' = Some ct
              \<and> toLowerCase ct \<noteq> [] \<and> str_includes (toLowerCase ct) ''json''"
proof -
  from assms obtain ct where ct: "Headers_get (resp_headers response) ''content-type'' = Some ct"
      "str_includes (toLowerCase ct) ''json''"
    by (auto simp: json_flavored_def split: option.splits)
  then have "toLowerCase ct \<noteq> []" using str_includes_nonempty by blast
  with ct show ?thesis by blast
qed

lemma strip_Nil: "strip ws [] = []"
proof -
  have "find (\<lambda>w. w \<noteq> [] \<and> take (length w) [] = w) ws = None"
    by (auto simp: find_None_iff)
  then show ?thesis by (subst strip.simps) simp
qed

lemma trim_nonempty: "trim s \<noteq> [] \<Longrightarrow> s \<noteq> []"
  by (auto simp: trim_def strip_Nil)

text \<open>
  C7. Let the transport answer the request of \<open>fetcher\<close> with a response that is \<open>ok\<close>.
  If its status is 204, the result is \<open>undefined\<close>, whatever the body and the headers
  (and whatever the method, \<open>GET\<close> included). If its status is 200, its content type is
  JSON-flavoured and its text is blank (empty once trimmed of white space of any kind,
  not only ASCII), the result is \<open>undefined\<close>. If its status is 200,
  its content type is JSON-flavoured and its text is \<open>{"hello":"world"}\<close>, the response
  not being one without content (the method is not \<open>HEAD\<close>, the content length is not
  0), the result is what \<open>JSON.parse\<close> makes of that text: the object with the property
  \<open>hello\<close> equal to \<open>world\<close>.
\<close>

theorem fetcher_classifies_success:
  assumes "fetch R url (fetcher_request R options) = Inr response" and "ok response"
  shows \<open>(status response = 204 \<longrightarrow> fetcher R url options = Inr Undefined)
       \<and> (status response = 200 \<and> json_flavored response
            \<and> text_body response = Inr txt \<and> trim txt = []
          \<longrightarrow> fetcher R url options = Inr Undefined)
       \<and> (status response = 200 \<and> json_flavored response
            \<and> text_body response = Inr ''{"hello":"world"}''
            \<and> init_method (fetcher_request R options) \<noteq> HEAD
            \<and> map_option trim (Headers_get (resp_headers response) ''content-length'') \<noteq> Some ''0''
            \<and> JSON_parse R ''{"hello":"world"}'' = Inr (Obj [(''hello'', Str ''world'')])
          \<longrightarrow> fetcher R url options = Inr (Obj [(''hello'', Str ''world'')]))\<close>
proof (intro conjI impI)
  assume "status response = 204"
  with assms show "fetcher R url options = Inr Undefined"
    by (simp add: fetcher_def fetcher_response_def Let_def)
next
  assume a: "status response = 200 \<and> json_flavored response
            \<and> text_body response = Inr txt \<and> trim txt = []"
  then obtain ct where "Headers_get (resp_headers response) ''content-type'' = Some ct"
      "toLowerCase ct \<noteq> []" "str_includes (toLowerCase ct) ''json''"
    using json_flavored_content_type by blast
  with assms a show "fetcher R url options = Inr Undefined"
    by (simp add: fetcher_def fetcher_response_def Let_def)
next
  assume a: \<open>status response = 200 \<and> json_flavored response
            \<and> text_body response = Inr ''{"hello":"world"}''
            \<and> init_method (fetcher_request R options) \<noteq> HEAD
            \<and> map_option trim (Headers_get (resp_headers response) ''content-length'') \<noteq> Some ''0''
            \<and> JSON_parse R ''{"hello":"world"}'' = Inr (Obj [(''hello'', Str ''world'')])\<close>
  then obtain ct where ct: "Headers_get (resp_headers response) ''content-type'' = Some ct"
      "toLowerCase ct \<noteq> []" "str_includes (toLowerCase ct) ''json''"
    using json_flavored_content_type by blast
  have t: \<open>trim ''{"hello":"world"}'' \<noteq> []\<close> by (simp add: trim_def strip.simps white_space_def)
  from assms a ct t show "fetcher R url options = Inr (Obj [(''hello'', Str ''world'')])"
    by (simp add: fetcher_def fetcher_response_def Let_def)
qed

theorem fetcher_classifies_success_witness:
  "fetcher (served empty_response) ''https://example.com/empty'' None = Inr Undefined
   \<and> fetcher (served blank_response) ''https://example.com'' None = Inr Undefined
   \<and> fetcher (served hello_response) ''https://example.com'' None
       = Inr (Obj [(''hello'', Str ''world'')])"
proof -
  have f: "fetch (served r) u (fetcher_request (served r) None) = Inr r" for r u
    by (simp add: served_def)
  have oks: "ok empty_response" "ok blank_response" "ok hello_response"
    by (simp_all add: empty_response_def blank_response_def hello_response_def)
  have one: "status empty_response = 204" by (simp add: empty_response_def)
  have two: "status blank_response = 200 \<and> json_flavored blank_response
              \<and> text_body blank_response = Inr ('' '' @ nbsp @ bom)
              \<and> trim ('' '' @ nbsp @ bom) = []"
    by (simp add: blank_response_def json_flavored_def Headers_get_def Headers_has_def
        toLowerCase_def lower_char_def trim_def strip.simps white_space_def nbsp_def bom_def)
  have three: \<open>status hello_response = 200 \<and> json_flavored hello_response
            \<and> text_body hello_response = Inr ''{"hello":"world"}''
            \<and> init_method (fetcher_request (served hello_response) None) \<noteq> HEAD
            \<and> map_option trim (Headers_get (resp_headers hello_response) ''content-length'') \<noteq> Some ''0''
            \<and> JSON_parse (served hello_response) ''{"hello":"world"}''
                = Inr (Obj [(''hello'', Str ''world'')])\<close>
    by (simp add: hello_response_def json_flavored_def Headers_get_def Headers_has_def
        toLowerCase_def lower_char_def fetcher_request_def no_options_def served_def
        sample_parse_def)
  from fetcher_classifies_success [OF f oks(1), of "''https://example.com/empty''"] one
  have r1: "fetcher (served empty_response) ''https://example.com/empty'' None = Inr Undefined"
    by blast
  from fetcher_classifies_success [OF f oks(2), of "''https://example.com''" "'' '' @ nbsp @ bom"] two
  have r2: "fetcher (served blank_response) ''https://example.com'' None = Inr Undefined"
    by blast
  from fetcher_classifies_success [OF f oks(3), of "''https://example.com''"] three
  have r3: "fetcher (served hello_response) ''https://example.com'' None
              = Inr (Obj [(''hello'', Str ''world'')])"
    by blast
  from r1 r2 r3 show ?thesis by simp
qed

text \<open>
  C8. Let the transport answer the request of \<open>fetcher\<close> with a response that is not \<open>ok\<close>.
  Then \<open>fetcher\<close> throws an \<open>Error\<close>, whatever decoding the body does. Its message is the
  \<open>message\<close> property of the decoded body, trimmed, when that is a string that is not
  blank (exactly \<open>Boom\<close> for the body \<open>{"message":"Boom"}\<close>); it is the decoded body itself
  when that is a string that is not blank; and it is \<open>HTTP error! Status: \<close> followed by
  the status in decimal when decoding rejects or the extraction yields nothing, as it
  does for a blank string and for a blank \<open>message\<close>. Blank is what \<open>trim\<close> empties: white
  space of any kind, not only ASCII.
\<close>

theorem fetcher_error_message:
  assumes "fetch R url (fetcher_request R options) = Inr response" and "\<not> ok response"
  shows "(\<exists>msg. fetcher R url options = Inl (ErrorObj msg))
       \<and> (json_body response = Inr (Obj [(''message'', Str ''Boom'')])
            \<longrightarrow> fetcher R url options = Inl (ErrorObj ''Boom''))
       \<and> (\<forall>kvs m. json_body response = Inr (Obj kvs) \<and> map_of kvs ''message'' = Some (Str m)
                   \<and> trim m \<noteq> []
            \<longrightarrow> fetcher R url options = Inl (ErrorObj (trim m)))
       \<and> (\<forall>s. json_body response = Inr (Str s) \<and> trim s \<noteq> []
            \<longrightarrow> fetcher R url options = Inl (ErrorObj s))
       \<and> (\<forall>e. json_body response = Inl e
            \<longrightarrow> fetcher R url options
                  = Inl (ErrorObj (''HTTP error! Status: '' @ decimal (status response))))
       \<and> (\<forall>data. json_body response = Inr data \<and> extractErrorMessage data = None
            \<longrightarrow> fetcher R url options
                  = Inl (ErrorObj (''HTTP error! Status: '' @ decimal (status response))))
       \<and> (\<forall>s. json_body response = Inr (Str s) \<and> trim s = []
            \<longrightarrow> fetcher R url options
                  = Inl (ErrorObj (''HTTP error! Status: '' @ decimal (status response))))
       \<and> (\<forall>kvs m. json_body response = Inr (Obj kvs) \<and> map_of kvs ''message'' = Some (Str m)
                   \<and> trim m = []
            \<longrightarrow> fetcher R url options
                  = Inl (ErrorObj (''HTTP error! Status: '' @ decimal (status response))))"
proof -
  have boom: "trim ''Boom'' = ''Boom''" by (simp add: trim_def strip.simps white_space_def)
  show ?thesis
    using assms boom trim_nonempty
    by (auto simp: fetcher_def fetcher_response_def Let_def split: sum.splits option.splits)
qed

theorem fetcher_error_message_witness:
  "fetcher (served boom_response) ''https://example.com/error'' None = Inl (ErrorObj ''Boom'')
   \<and> fetcher (served (boom_response\<lparr>json_body := Inl (ErrorObj ''Unexpected token'')\<rparr>))
        ''https://example.com/error'' None = Inl (ErrorObj ''HTTP error! Status: 500'')
   \<and> fetcher (served (boom_response\<lparr>json_body := Inr (Str ''Down for maintenance'')\<rparr>))
        ''https://example.com/error'' None = Inl (ErrorObj ''Down for maintenance'')
   \<and> fetcher (served (boom_response\<lparr>json_body := Inr (Num 7)\<rparr>))
        ''https://example.com/error'' None = Inl (ErrorObj ''HTTP error! Status: 500'')
   \<and> fetcher (served (boom_response
          \<lparr>json_body := Inr (Obj [(''message'', Str (nbsp @ ''Boom'' @ nbsp))])\<rparr>))
        ''https://example.com/error'' None = Inl (ErrorObj ''Boom'')
   \<and> fetcher (served (boom_response\<lparr>json_body := Inr (Str nbsp)\<rparr>))
        ''https://example.com/error'' None = Inl (ErrorObj ''HTTP error! Status: 500'')"
proof -
  let ?url = "''https://example.com/error''"
  have f: "fetch (served r) u (fetcher_request (served r) None) = Inr r" for r u
    by (simp add: served_def)
  have bad: "\<not> ok (boom_response\<lparr>json_body := j\<rparr>)" "\<not> ok boom_response" for j
    by (simp_all add: boom_response_def)
  have st: "decimal (status (boom_response\<lparr>json_body := j\<rparr>)) = ''500''" for j
    by (simp add: boom_response_def decimal.simps digit_def)
  have j1: "json_body boom_response = Inr (Obj [(''message'', Str ''Boom'')])"
    by (simp add: boom_response_def)
  have j3: "trim ''Down for maintenance'' \<noteq> []" by (simp add: trim_def strip.simps white_space_def)
  from fetcher_error_message [OF f bad(2), of ?url] j1
  have r1: "fetcher (served boom_response) ?url None = Inl (ErrorObj ''Boom'')"
    by blast
  from fetcher_error_message [OF f bad(1), of "Inl (ErrorObj ''Unexpected token'')" ?url] st
  have r2: "fetcher (served (boom_response\<lparr>json_body := Inl (ErrorObj ''Unexpected token'')\<rparr>))
              ?url None = Inl (ErrorObj ''HTTP error! Status: 500'')"
    by simp
  from fetcher_error_message [OF f bad(1), of "Inr (Str ''Down for maintenance'')" ?url] j3
  have r3: "fetcher (served (boom_response\<lparr>json_body := Inr (Str ''Down for maintenance'')\<rparr>))
              ?url None = Inl (ErrorObj ''Down for maintenance'')"
    by simp
  from fetcher_error_message [OF f bad(1), of "Inr (Num 7)" ?url] st
  have r4: "fetcher (served (boom_response\<lparr>json_body := Inr (Num 7)\<rparr>))
              ?url None = Inl (ErrorObj ''HTTP error! Status: 500'')"
    by simp
  have j5: "map_of [(''message'', Str (nbsp @ ''Boom'' @ nbsp))] ''message''
              = Some (Str (nbsp @ ''Boom'' @ nbsp))"
    and t5: "trim (nbsp @ ''Boom'' @ nbsp) = ''Boom''"
    and t6: "trim nbsp = []"
    by (simp_all add: trim_def strip.simps white_space_def nbsp_def)
  from fetcher_error_message [OF f bad(1),
         of "Inr (Obj [(''message'', Str (nbsp @ ''Boom'' @ nbsp))])" ?url] j5 t5
  have r5: "fetcher (served (boom_response
              \<lparr>json_body := Inr (Obj [(''message'', Str (nbsp @ ''Boom'' @ nbsp))])\<rparr>))
              ?url None = Inl (ErrorObj ''Boom'')"
    by simp
  from fetcher_error_message [OF f bad(1), of "Inr (Str nbsp)" ?url] st t6
  have r6: "fetcher (served (boom_response\<lparr>json_body := Inr (Str nbsp)\<rparr>))
              ?url None = Inl (ErrorObj ''HTTP error! Status: 500'')"
    by simp
  from r1 r2 r3 r4 r5 r6 show ?thesis by simp
qed

text \<open>
  C9. In the request that \<open>fetcher\<close> hands to the transport: a body that is a plain
  object or an array is replaced by its JSON text; when the caller's headers have no
  content type, the content type \<open>application/json\<close> is added to them, and when they have
  one, the headers are left as they are; a body that is a form is passed through as it
  is, and the headers are the caller's without any content type.
\<close>

theorem fetcher_request_body:
  "((body opts = Obj kvs \<or> body opts = Arr xs)
      \<and> \<not> Headers_has (Headers_new (headers opts)) ''Content-Type''
     \<longrightarrow> init_body (fetcher_request R (Some opts)) = Some (Str (JSON_stringify R (body opts)))
       \<and> init_headers (fetcher_request R (Some opts))
           = Headers_new (headers opts) @ [(''content-type'', ''application/json'')]
       \<and> Headers_get (init_headers (fetcher_request R (Some opts))) ''Content-Type''
           = Some ''application/json'')
   \<and> ((body opts = Obj kvs \<or> body opts = Arr xs)
      \<and> Headers_has (Headers_new (headers opts)) ''Content-Type''
     \<longrightarrow> init_body (fetcher_request R (Some opts)) = Some (Str (JSON_stringify R (body opts)))
       \<and> init_headers (fetcher_request R (Some opts)) = Headers_new (headers opts))
   \<and> (body opts = FormData entries
     \<longrightarrow> init_body (fetcher_request R (Some opts)) = Some (FormData entries)
       \<and> init_headers (fetcher_request R (Some opts))
           = filter (\<lambda>(k, v). k \<noteq> ''content-type'') (Headers_new (headers opts))
       \<and> \<not> Headers_has (init_headers (fetcher_request R (Some opts))) ''Content-Type'')"
proof -
  note lc = toLowerCase_Content_Type
  have ser: "body opts \<noteq> Undefined \<and> body opts \<noteq> Null \<and> \<not> instanceof_FormData (body opts)
             \<and> shouldSerializeToJson (body opts)"
    if "body opts = Obj kvs \<or> body opts = Arr xs"
    using that
    by (auto simp: shouldSerializeToJson_def isPlainObject_def js_typeof_def
        plain_prototype_def Array_isArray_def instanceof_FormData_def)
  have get_new: "Headers_get (h @ [(''content-type'', v)]) ''Content-Type'' = Some v"
    if "\<not> Headers_has h ''Content-Type''" for h v
  proof -
    from that have "filter (\<lambda>(k, _). k = ''content-type'') h = []"
      by (force simp: Headers_has_def lc filter_empty_conv)
    then show ?thesis by (simp add: Headers_get_def Headers_has_def lc)
  qed
  have del: "\<not> Headers_has (filter (\<lambda>(k, v). k \<noteq> ''content-type'') h) ''Content-Type''"
    for h :: Headers
    by (auto simp: Headers_has_def lc)
  show ?thesis
  proof (intro conjI impI)
    assume a: "(body opts = Obj kvs \<or> body opts = Arr xs)
                 \<and> \<not> Headers_has (Headers_new (headers opts)) ''Content-Type''"
    with ser show "init_body (fetcher_request R (Some opts))
                     = Some (Str (JSON_stringify R (body opts)))"
      by (simp add: fetcher_request_def Let_def)
    from a ser show h: "init_headers (fetcher_request R (Some opts))
                     = Headers_new (headers opts) @ [(''content-type'', ''application/json'')]"
      by (simp add: fetcher_request_def Let_def Headers_set_def lc)
    from a show "Headers_get (init_headers (fetcher_request R (Some opts))) ''Content-Type''
                   = Some ''application/json''"
      unfolding h by (simp add: get_new)
  next
    assume a: "(body opts = Obj kvs \<or> body opts = Arr xs)
                 \<and> Headers_has (Headers_new (headers opts)) ''Content-Type''"
    with ser show "init_body (fetcher_request R (Some opts))
                     = Some (Str (JSON_stringify R (body opts)))"
      by (simp add: fetcher_request_def Let_def)
    from a ser show "init_headers (fetcher_request R (Some opts)) = Headers_new (headers opts)"
      by (simp add: fetcher_request_def Let_def)
  next
    assume a: "body opts = FormData entries"
    then show "init_body (fetcher_request R (Some opts)) = Some (FormData entries)"
      by (simp add: fetcher_request_def Let_def instanceof_FormData_def)
    from a show h: "init_headers (fetcher_request R (Some opts))
                     = filter (\<lambda>(k, v). k \<noteq> ''content-type'') (Headers_new (headers opts))"
      by (simp add: fetcher_request_def Let_def instanceof_FormData_def Headers_delete_def lc)
    show "\<not> Headers_has (init_headers (fetcher_request R (Some opts))) ''Content-Type''"
      unfolding h by (rule del)
  qed
qed

theorem fetcher_request_body_witness:
  \<open>init_body (fetcher_request offline
       (Some \<lparr>http_method = Some POST, body = Obj [(''completed'', Bool False)], headers = [],
              restOptions = []\<rparr>)) = Some (Str ''{"completed":false}'')
   \<and> init_headers (fetcher_request offline
       (Some \<lparr>http_method = Some POST, body = Obj [(''completed'', Bool False)], headers = [],
              restOptions = []\<rparr>)) = [(''content-type'', ''application/json'')]
   \<and> init_headers (fetcher_request offline
       (Some \<lparr>http_method = Some POST, body = Arr [Num 1],
              headers = [(''Content-Type'', ''application/vnd.api+json'')],
              restOptions = []\<rparr>)) = [(''content-type'', ''application/vnd.api+json'')]
   \<and> init_body (fetcher_request offline
       (Some \<lparr>http_method = Some POST, body = FormData [(''name'', ''a.txt'')],
              headers = [(''Content-Type'', ''multipart/form-data''), (''Accept'', ''*/*'')],
              restOptions = []\<rparr>)) = Some (FormData [(''name'', ''a.txt'')])
   \<and> init_headers (fetcher_request offline
       (Some \<lparr>http_method = Some POST, body = FormData [(''name'', ''a.txt'')],
              headers = [(''Content-Type'', ''multipart/form-data''), (''Accept'', ''*/*'')],
              restOptions = []\<rparr>)) = [(''accept'', ''*/*'')]\<close>
proof -
  let ?plain = "\<lparr>http_method = Some POST, body = Obj [(''completed'', Bool False)], headers = [],
                 restOptions = []\<rparr>"
  let ?typed = "\<lparr>http_method = Some POST, body = Arr [Num 1],
                 headers = [(''Content-Type'', ''application/vnd.api+json'')],
                 restOptions = []\<rparr>"
  let ?form = "\<lparr>http_method = Some POST, body = FormData [(''name'', ''a.txt'')],
                headers = [(''Content-Type'', ''multipart/form-data''), (''Accept'', ''*/*'')],
                restOptions = []\<rparr>"
  have h1: "(body ?plain = Obj [(''completed'', Bool False)] \<or> body ?plain = Arr [])
              \<and> \<not> Headers_has (Headers_new (headers ?plain)) ''Content-Type''"
    by (simp add: Headers_has_def Headers_new_def)
  have s1: \<open>JSON_stringify offline (body ?plain) = ''{"completed":false}''\<close>
    by (simp add: offline_def sample_stringify_def)
  have n1: "Headers_new (headers ?plain) = []" by (simp add: Headers_new_def)
  have h2: "(body ?typed = Obj [] \<or> body ?typed = Arr [Num 1])
              \<and> Headers_has (Headers_new (headers ?typed)) ''Content-Type''"
    by (simp add: Headers_has_def Headers_new_def toLowerCase_def lower_char_def)
  have n2: "Headers_new (headers ?typed) = [(''content-type'', ''application/vnd.api+json'')]"
    by (simp add: Headers_new_def toLowerCase_def lower_char_def)
  have h3: "body ?form = FormData [(''name'', ''a.txt'')]" by simp
  have n3: "filter (\<lambda>(k, v). k \<noteq> ''content-type'') (Headers_new (headers ?form))
              = [(''accept'', ''*/*'')]"
    by (simp add: Headers_new_def toLowerCase_def lower_char_def)
  from fetcher_request_body [of ?plain "[(''completed'', Bool False)]" "[]" offline "[]"] h1
  have r1: "init_body (fetcher_request offline (Some ?plain))
              = Some (Str (JSON_stringify offline (body ?plain)))"
    and r2: "init_headers (fetcher_request offline (Some ?plain))
              = Headers_new (headers ?plain) @ [(''content-type'', ''application/json'')]"
    by blast+
  from fetcher_request_body [of ?typed "[]" "[Num 1]" offline "[]"] h2
  have r3: "init_headers (fetcher_request offline (Some ?typed)) = Headers_new (headers ?typed)"
    by blast
  from fetcher_request_body [of ?form "[]" "[]" offline "[(''name'', ''a.txt'')]"] h3
  have r4: "init_body (fetcher_request offline (Some ?form)) = Some (FormData [(''name'', ''a.txt'')])"
    and r5: "init_headers (fetcher_request offline (Some ?form))
              = filter (\<lambda>(k, v). k \<noteq> ''content-type'') (Headers_new (headers ?form))"
    by blast+
  from r1 r2 r3 r4 r5 s1 n1 n2 n3 show ?thesis by simp
qed

section \<open>Properties of \<open>tryCatch\<close>\<close>

text \<open>
  C10, as stated, fails. A thunk whose promise is fulfilled with \<open>null\<close> succeeds, and the
  pair is \<open>[null, null]\<close>: neither side is populated.
\<close>

theorem tryCatch_null_value_counterexample:
  "tryCatch offline (Function (Inr (Promise (Inr Null)))) None = Inr (Null, Null)
   \<and> \<not> one_sided (Null, Null)"
  by (simp add: tryCatch_def awaited_def resolveInput_def await_def one_sided_def nullish_def)

text \<open>
  C10, amended. \<open>tryCatch\<close> never rejects: for every input (a value, a promise, a thunk, a
  \<open>URL\<close> or a string) it resolves to a pair, \<open>[value, null]\<close> when the awaited operation
  succeeds and \<open>[null, error]\<close> when it throws or rejects; exactly one side of the pair
  is populated whenever the value, or the error, is itself neither \<open>null\<close> nor
  \<open>undefined\<close>.
\<close>

theorem tryCatch_never_rejects:
  "(\<exists>data error. tryCatch R input requestOptions = Inr (data, error))
   \<and> (\<forall>v. awaited R input requestOptions = Inr v
          \<longrightarrow> tryCatch R input requestOptions = Inr (v, Null))
   \<and> (\<forall>e. awaited R input requestOptions = Inl e
          \<longrightarrow> tryCatch R input requestOptions = Inr (Null, e))
   \<and> (\<forall>x. (awaited R input requestOptions = Inr x \<or> awaited R input requestOptions = Inl x)
            \<and> \<not> nullish x
          \<longrightarrow> (\<exists>p. tryCatch R input requestOptions = Inr p \<and> one_sided p))"
  by (auto simp: tryCatch_def one_sided_def nullish_def split: sum.splits)

theorem tryCatch_never_rejects_witness:
  "tryCatch offline (Function (Inr (Promise (Inr (Str ''done''))))) None = Inr (Str ''done'', Null)
   \<and> one_sided (Str ''done'', Null)
   \<and> tryCatch offline (Function (Inl (ErrorObj ''nope''))) None = Inr (Null, ErrorObj ''nope'')
   \<and> one_sided (Null, ErrorObj ''nope'')
   \<and> tryCatch offline (Input (Plain (Str ''https://example.com/users/1''))) None
       = Inr (Null, ErrorObj ''fetch failed'')"
proof -
  let ?done = "Function (Inr (Promise (Inr (Str ''done''))))"
  let ?nope = "Function (Inl (ErrorObj ''nope''))"
  let ?url = "Input (Plain (Str ''https://example.com/users/1''))"
  have a1: "awaited offline ?done None = Inr (Str ''done'')"
    by (simp add: awaited_def resolveInput_def await_def)
  have a2: "awaited offline ?nope None = Inl (ErrorObj ''nope'')"
    by (simp add: awaited_def resolveInput_def)
  have a3: "awaited offline ?url None = Inl (ErrorObj ''fetch failed'')"
    by (simp add: awaited_def resolveInput_def await_def fetcher_def offline_def
        isFetchTarget_def js_typeof_def target_url_def)
  have n: "\<not> nullish (Str ''done'')" "\<not> nullish (ErrorObj ''nope'')"
    by (simp_all add: nullish_def)
  from tryCatch_never_rejects [of offline ?done None] a1
  have r1: "tryCatch offline ?done None = Inr (Str ''done'', Null)" by blast
  from tryCatch_never_rejects [of offline ?done None] a1 n(1)
  have "\<exists>p. tryCatch offline ?done None = Inr p \<and> one_sided p" by blast
  with r1 have s1: "one_sided (Str ''done'', Null)" by simp
  from tryCatch_never_rejects [of offline ?nope None] a2
  have r2: "tryCatch offline ?nope None = Inr (Null, ErrorObj ''nope'')" by blast
  from tryCatch_never_rejects [of offline ?nope None] a2 n(2)
  have "\<exists>p. tryCatch offline ?nope None = Inr p \<and> one_sided p" by blast
  with r2 have s2: "one_sided (Null, ErrorObj ''nope'')" by simp
  from tryCatch_never_rejects [of offline ?url None] a3
  have r3: "tryCatch offline ?url None = Inr (Null, ErrorObj ''fetch failed'')" by blast
  from r1 s1 r2 s2 r3 show ?thesis by simp
qed

end
